theory Spec2Isabelle
  imports Main "HOL-Library.Sublist"
begin

section \<open>WebDNN backend selection: \<open>src/descriptor_runner/webdnn.ts\<close>\<close>

subsection \<open>Backend names and the constructor map\<close>

text \<open>
  \<open>BackendName\<close> is the TypeScript union \<open>'webgpu' | 'webassembly' | 'fallback'\<close>. The
  type is erased at run time and \<open>initBackend\<close> guards against other strings itself, so
  a backend name is modelled as the string the JavaScript code receives.
\<close>

type_synonym BackendName = string

text \<open>The own keys of the object literal \<open>descriptorRunners\<close>, in source order.\<close>

definition descriptorRunners_keys :: "BackendName list" where
  "descriptorRunners_keys = [''webgpu'', ''webassembly'', ''fallback'']"

text \<open>
  \<open>descriptorRunners\<close> is an object literal, so its prototype is \<open>Object.prototype\<close>.
  These are the string-named properties it inherits (ECMAScript, with Annex B).
\<close>

definition Object_prototype_keys :: "string list" where
  "Object_prototype_keys =
     [''constructor'', ''hasOwnProperty'', ''isPrototypeOf'', ''propertyIsEnumerable'',
      ''toLocaleString'', ''toString'', ''valueOf'', ''__proto__'',
      ''__defineGetter__'', ''__defineSetter__'', ''__lookupGetter__'', ''__lookupSetter__'']"

text \<open>
  \<open>backendName in descriptorRunners\<close>: the \<open>in\<close> operator looks at own properties and
  at the prototype chain.
\<close>

definition in_descriptorRunners :: "BackendName \<Rightarrow> bool" where
  "in_descriptorRunners backendName \<longleftrightarrow>
     backendName \<in> set descriptorRunners_keys \<or> backendName \<in> set Object_prototype_keys"

subsection \<open>\<open>getBackendAvailability\<close>\<close>

record BackendAvailability =
  status :: "BackendName \<rightharpoonup> bool"
  defaultOrder :: "BackendName list"

text \<open>
  The three runner classes are not part of the sources; their static
  \<open>checkAvailability()\<close> is the parameter \<open>checkAvailability\<close>, by backend name.
\<close>

definition getBackendAvailability :: "(BackendName \<Rightarrow> bool) \<Rightarrow> BackendAvailability" where
  "getBackendAvailability checkAvailability =
     (let status = [''webgpu'' \<mapsto> checkAvailability ''webgpu'',
                    ''webassembly'' \<mapsto> checkAvailability ''webassembly'',
                    ''fallback'' \<mapsto> checkAvailability ''fallback''];
          order = filter (\<lambda>backend. status backend = Some True)
                    [''webgpu'', ''webassembly'', ''fallback'']
      in \<lparr>status = status, defaultOrder = order\<rparr>)"

subsection \<open>Effects: thrown values, the console, the runner classes\<close>

text \<open>
  A caught value is used by the code only inside the template literals of its two log
  lines. Evaluating such a literal either gives text or throws itself: \<open>`${ex}`\<close> throws
  for a Symbol or for an object whose conversion throws, and \<open>`${ex.message}`\<close> throws
  when \<open>ex\<close> is \<open>undefined\<close> or \<open>null\<close>. \<open>Fails d\<close> is that case, with a description \<open>d\<close>
  of what is thrown.
\<close>

datatype conv = Text string | Fails string

text \<open>
  A thrown value, as seen through \<open>`${ex}`\<close> (\<open>ex_text\<close>) and \<open>`${ex.message}`\<close>
  (\<open>ex_message\<close>).
\<close>

datatype exn = Exn (ex_text: conv) (ex_message: conv)

datatype outcome = Returns | Throws exn

text \<open>
  What \<open>load\<close> and \<open>initBackend\<close> reject with: \<open>Error m\<close> is an error this module makes
  itself, \<open>new Error(m)\<close>; \<open>Raised d\<close> is the value thrown while a \<open>catch\<close> block builds
  its log line, described by \<open>d\<close>. Neither function throws again a value it caught.
\<close>

datatype error = Error string | Raised string

text \<open>
  Everything outside the JavaScript heap that the calls act on: the state \<open>world\<close> of
  the environment (devices, network, whatever the runner classes touch) and the lines
  written with \<open>console.warn\<close>, oldest first.
\<close>

record 'w sys =
  world :: 'w
  console :: "string list"

text \<open>
  Modelled from the spec: the class \<open>DescriptorRunner\<close> is not part of the sources. Of a
  runner object the code here writes \<open>ignoreCache\<close> and (in \<open>scripts/resnet50.ts\<close>) reads
  \<open>backendName\<close>, which "identifies which BackendKind this instance is".
\<close>

record Runner =
  backendName :: BackendName
  ignoreCache :: bool

text \<open>
  The runner classes behind \<open>descriptorRunners\<close> (not part of the sources), as functions
  of the world: \<open>new_runner\<close> is \<open>new descriptorRunners[backendName](option)\<close> and gives
  the object made or the value thrown, \<open>runner_init\<close> is \<open>runner.init()\<close>, and
  \<open>runner_load\<close> is \<open>runner.load(directory, progressCallback)\<close>. Each returns or throws
  (an async function that rejects throws at its \<open>await\<close>), and leaves a new world.
\<close>

record ('w, 'o, 'c) runner_classes =
  new_runner :: "BackendName \<Rightarrow> 'o option \<Rightarrow> 'w \<Rightarrow> (exn + Runner) \<times> 'w"
  runner_init :: "Runner \<Rightarrow> 'w \<Rightarrow> outcome \<times> 'w"
  runner_load :: "Runner \<Rightarrow> string \<Rightarrow> 'c option \<Rightarrow> 'w \<Rightarrow> outcome \<times> 'w"

definition dquote :: string where
  "dquote = [CHR 0x22]"

subsection \<open>\<open>initBackend\<close>\<close>

text \<open>
  The \<open>try\<close> block of \<open>initBackend\<close>: the object is constructed and initialised, and the
  result is the runner or the value thrown. A name that passed the guard only through
  the prototype chain indexes a built-in. For \<open>constructor\<close> that is \<open>Object\<close>, and
  \<open>new Object(option)\<close> is the option value itself (or a wrapper of it), so whether
  \<open>init()\<close> exists and what it does is the option's business: the record of classes
  answers for this name as well. Every other inherited name indexes a value that is
  not a constructor, and \<open>new\<close> throws a \<open>TypeError\<close> (the wording of its message is the
  engine's).
\<close>

definition try_new_init ::
  "('w, 'o, 'c) runner_classes \<Rightarrow> BackendName \<Rightarrow> 'o option \<Rightarrow> 'w \<Rightarrow> (exn + Runner) \<times> 'w" where
  "try_new_init classes name option w =
     (if name \<in> set descriptorRunners_keys \<or> name = ''constructor'' then
        (case new_runner classes name option w of
           (Inl ex, w1) \<Rightarrow> (Inl ex, w1)
         | (Inr made, w1) \<Rightarrow>
             (case runner_init classes made w1 of
                (Throws ex, w2) \<Rightarrow> (Inl ex, w2)
              | (Returns, w2) \<Rightarrow> (Inr made, w2)))
      else
        (Inl (Exn (Text ''TypeError: descriptorRunners[backendName] is not a constructor'')
                  (Text ''descriptorRunners[backendName] is not a constructor'')), w))"

text \<open>
  \<open>initBackend(backendName, option)\<close>, with \<open>name\<close> for its parameter \<open>backendName\<close>:
  \<open>Inl\<close> is what it rejects with, \<open>Inr None\<close> is \<open>null\<close>, \<open>Inr (Some r)\<close> the runner. The
  \<open>catch\<close> block evaluates \<open>`${ex}`\<close> for its log line before it logs; when that throws,
  nothing is logged and \<open>initBackend\<close> rejects.
\<close>

definition initBackend ::
  "('w, 'o, 'c) runner_classes \<Rightarrow> BackendName \<Rightarrow> 'o option \<Rightarrow> 'w sys
     \<Rightarrow> (error + Runner option) \<times> 'w sys" where
  "initBackend classes name option s =
     (if \<not> in_descriptorRunners name then
        (Inl (Error (''Unknown backend: '' @ dquote @ name @ dquote)), s)
      else
        (case try_new_init classes name option (world s) of
           (Inl ex, w1) \<Rightarrow>
             (case ex_text ex of
                Fails d \<Rightarrow> (Inl (Raised d), \<lparr>world = w1, console = console s\<rparr>)
              | Text t \<Rightarrow>
                  (Inr None,
                   \<lparr>world = w1,
                    console = console s @
                      [''Failed to initialize '' @ name @ '' backend: '' @ t]\<rparr>))
         | (Inr made, w1) \<Rightarrow>
             (Inr (Some made), \<lparr>world = w1, console = console s\<rparr>)))"

subsection \<open>Arrays on the heap\<close>

text \<open>
  \<open>load\<close> shifts elements off an array, and the caller may hold the array it passed
  in, so arrays of backend names live in a store: \<open>cells\<close> maps a reference to the
  array's elements, and \<open>fresh\<close> is the next reference a new array gets. The runner
  classes act on the world only; they are not handed any of these arrays.
\<close>

type_synonym ref = nat

record heap =
  cells :: "ref \<rightharpoonup> BackendName list"
  fresh :: ref

definition alloc :: "BackendName list \<Rightarrow> heap \<Rightarrow> ref \<times> heap" where
  "alloc xs h = (fresh h, \<lparr>cells = (cells h)(fresh h \<mapsto> xs), fresh = Suc (fresh h)\<rparr>)"

text \<open>The elements of the array at a reference (a JavaScript reference never dangles).\<close>

definition array_at :: "heap \<Rightarrow> ref \<Rightarrow> BackendName list" where
  "array_at h r = (case cells h r of Some xs \<Rightarrow> xs | None \<Rightarrow> [])"

subsection \<open>\<open>load\<close>\<close>

text \<open>
  The run-time value of \<open>initOption.backendOrder\<close>: absent, a string, or an array.
  In the record, \<open>ignoreCache_opt\<close> is \<open>initOption.ignoreCache\<close> (the runner's field
  has the plain name); options and the progress callback are opaque and passed through.
  The option object is plain data: reading its properties has no effect. A backend
  without an own entry in \<open>backendOptions\<close> gets \<open>None\<close> (for the name \<open>constructor\<close>
  that stands for the inherited value, \<open>Object\<close>).
\<close>

datatype order_value = Undefined | Str string | Arr ref

record ('o, 'c) InitOption =
  backendOrder :: order_value
  backendOptions :: "(BackendName \<rightharpoonup> 'o) option"
  ignoreCache_opt :: "bool option"
  progressCallback :: "'c option"

text \<open>
  Lines 180 to 187 of \<open>load\<close>: the local variable \<open>backendOrder\<close> ends as a reference to
  a copy (\<open>slice\<close>). \<open>concat\<close> makes a new array and leaves its receiver alone; the
  source drops that new array.
\<close>

definition normalize_backendOrder :: "order_value \<Rightarrow> heap \<Rightarrow> ref \<times> heap" where
  "normalize_backendOrder v h =
     (let (r0, h0) =
            (case v of
               Undefined \<Rightarrow> alloc [''webgpu'', ''webassembly''] h
             | Str name \<Rightarrow>
                 if name = [] then alloc [''webgpu'', ''webassembly''] h else alloc [name] h
             | Arr r \<Rightarrow> (r, h));
          (r1, h1) = alloc (array_at h0 r0) h0;
          h2 = (if ''fallback'' \<notin> set (array_at h1 r1)
                then snd (alloc (array_at h1 r1 @ [''fallback'']) h1)
                else h1)
      in (r1, h2))"

text \<open>
  The \<open>while\<close> loop of \<open>load\<close>, lines 191 to 206, on the array at \<open>r\<close>. The result is
  what \<open>load\<close> settles with (\<open>Inl\<close>: rejected with that error), the heap and the
  effects. The \<open>catch\<close> block around \<open>runner.load\<close> evaluates \<open>`${ex.message}`\<close> for its
  log line; when that throws, \<open>load\<close> rejects, and otherwise it logs and goes on to
  \<open>return runner\<close>.
\<close>

function load_loop ::
  "('w, 'o, 'c) runner_classes \<Rightarrow> string \<Rightarrow> ('o, 'c) InitOption \<Rightarrow> (BackendName \<rightharpoonup> 'o)
     \<Rightarrow> ref \<Rightarrow> heap \<Rightarrow> 'w sys \<Rightarrow> (error + Runner) \<times> heap \<times> 'w sys" where
  "load_loop classes directory initOption options r h s =
     (if length (array_at h r) > 0 then
        (let name = hd (array_at h r);
             h' = h\<lparr>cells := (cells h)(r \<mapsto> tl (array_at h r))\<rparr>
         in case initBackend classes name (options name) s of
              (Inl e, s1) \<Rightarrow> (Inl e, h', s1)
            | (Inr None, s1) \<Rightarrow> load_loop classes directory initOption options r h' s1
            | (Inr (Some runner), s1) \<Rightarrow>
                (let runner' = runner\<lparr>ignoreCache := (ignoreCache_opt initOption = Some True)\<rparr>
                 in case runner_load classes runner' directory (progressCallback initOption)
                           (world s1) of
                      (Throws ex, w2) \<Rightarrow>
                        (case ex_message ex of
                           Fails d \<Rightarrow> (Inl (Raised d), h', \<lparr>world = w2, console = console s1\<rparr>)
                         | Text m \<Rightarrow>
                             (Inr runner', h',
                              \<lparr>world = w2,
                               console = console s1 @
                                 [''Model loading failed for '' @ name @
                                  '' backend. Trying next backend: '' @ m]\<rparr>))
                    | (Returns, w2) \<Rightarrow>
                        (Inr runner', h', \<lparr>world = w2, console = console s1\<rparr>)))
      else (Inl (Error ''No backend is available''), h, s))"
  by pat_completeness auto
termination
  by (relation "measure (\<lambda>(classes, directory, initOption, options, r, h, s). length (array_at h r))")
     (auto simp: array_at_def)

definition load ::
  "('w, 'o, 'c) runner_classes \<Rightarrow> string \<Rightarrow> ('o, 'c) InitOption \<Rightarrow> heap \<Rightarrow> 'w sys
     \<Rightarrow> (error + Runner) \<times> heap \<times> 'w sys" where
  "load classes directory initOption h s =
     (let (r, h1) = normalize_backendOrder (backendOrder initOption) h;
          options = (case backendOptions initOption of None \<Rightarrow> Map.empty | Some m \<Rightarrow> m)
      in load_loop classes directory initOption options r h1 s)"

text \<open>
  The elements of the local array \<open>backendOrder\<close> when the loop starts, that is the
  order \<open>load\<close> attempts.
\<close>

definition attempted_order :: "order_value \<Rightarrow> heap \<Rightarrow> BackendName list" where
  "attempted_order v h = (let (r, h1) = normalize_backendOrder v h in array_at h1 r)"


subsection \<open>Scripted environments\<close>

text \<open>
  Runner classes for concrete runs: the world is the list of calls made so far, a
  constructor always returns a runner of that name, \<open>init\<close> returns for the backends
  in \<open>init_ok\<close> and \<open>load\<close> for those in \<open>load_ok\<close>; what they throw is an \<open>Error\<close>.
\<close>

definition scripted_classes ::
  "(BackendName \<Rightarrow> bool) \<Rightarrow> (BackendName \<Rightarrow> bool) \<Rightarrow> (string list, unit, unit) runner_classes" where
  "scripted_classes init_ok load_ok =
     \<lparr>new_runner = (\<lambda>name option w.
        (Inr \<lparr>backendName = name, ignoreCache = False\<rparr>, w @ [''new '' @ name])),
      runner_init = (\<lambda>made w.
        (if init_ok (backendName made) then Returns
         else Throws (Exn (Text ''Error: no device'') (Text ''no device'')),
         w @ [''init '' @ backendName made])),
      runner_load = (\<lambda>made directory progressCallback w.
        (if load_ok (backendName made) then Returns
         else Throws (Exn (Text ''Error: fetch failed'') (Text ''fetch failed'')),
         w @ [''load '' @ backendName made]))\<rparr>"

text \<open>
  Classes whose \<open>init()\<close> rejects with a Symbol: \<open>`${ex}`\<close> throws a \<open>TypeError\<close> for it.
\<close>

definition symbol_classes :: "(string list, unit, unit) runner_classes" where
  "symbol_classes =
     (scripted_classes (\<lambda>name. False) (\<lambda>name. True))
       \<lparr>runner_init := (\<lambda>made w.
          (Throws (Exn (Fails ''TypeError: Cannot convert a Symbol value to a string'')
                       (Text ''undefined'')),
           w @ [''init '' @ backendName made]))\<rparr>"

text \<open>
  Classes whose \<open>init()\<close> fails only while fewer than four calls have been made: a
  backend that fails in one state of the world and would initialise in another.
\<close>

definition warming_classes :: "(string list, unit, unit) runner_classes" where
  "warming_classes =
     (scripted_classes (\<lambda>name. True) (\<lambda>name. True))
       \<lparr>runner_init := (\<lambda>made w.
          (if length w < 4 then Throws (Exn (Text ''Error: no device'') (Text ''no device''))
           else Returns,
           w @ [''init '' @ backendName made]))\<rparr>"

definition no_options :: "(unit, unit) InitOption" where
  "no_options = \<lparr>backendOrder = Undefined, backendOptions = None, ignoreCache_opt = None,
                 progressCallback = None\<rparr>"

definition empty_heap :: heap where
  "empty_heap = \<lparr>cells = Map.empty, fresh = 0\<rparr>"

definition quiet :: "string list sys" where
  "quiet = \<lparr>world = [], console = []\<rparr>"

definition two_backends :: heap where
  "two_backends = \<lparr>cells = [0 \<mapsto> [''webgpu'', ''webassembly'']], fresh = 1\<rparr>"

section \<open>The WebGPU crash tracker of the demo: \<open>src/scripts/resnet50.ts\<close>\<close>

definition KEY_WEBGPU_LAST_STATUS :: string where
  "KEY_WEBGPU_LAST_STATUS = ''webgpu_last_status''"

definition KEY_FLAG_WEBGPU_DISABLED_ALERT :: string where
  "KEY_FLAG_WEBGPU_DISABLED_ALERT = ''flag_webgpu_disabled_alert''"

text \<open>
  What outlives a page and what the user sees: \<open>localStorage\<close> (\<open>getItem\<close> of a missing
  key is \<open>null\<close>, here \<open>None\<close>), the \<open>alert\<close> dialogs shown and the lines of
  \<open>console.warn\<close>, oldest first.
\<close>

record Browser =
  localStorage :: "string \<rightharpoonup> string"
  alerts :: "string list"
  warned :: "string list"

text \<open>
  The fields of \<open>App\<close> that the tracker uses: \<open>lastStatus\<close> (initialised to \<open>''\<close>) and
  \<open>runner\<close> (unassigned until \<open>initialize\<close> sets it).
\<close>

record App =
  lastStatus :: string
  runner :: "Runner option"

definition new_App :: App where
  "new_App = \<lparr>lastStatus = [], runner = None\<rparr>"

text \<open>\<open>xs.indexOf(x)\<close>: the first index of \<open>x\<close>, or \<open>-1\<close>.\<close>

fun indexOf :: "BackendName list \<Rightarrow> BackendName \<Rightarrow> int" where
  "indexOf [] x = - 1"
| "indexOf (y # ys) x =
     (if y = x then 0 else (let i = indexOf ys x in if i < 0 then - 1 else i + 1))"

text \<open>
  The array after \<open>xs.splice(start, deleteCount)\<close>: a negative \<open>start\<close> counts from the
  end, so \<open>splice(-1, 1)\<close> removes the last element.
\<close>

definition splice :: "BackendName list \<Rightarrow> int \<Rightarrow> nat \<Rightarrow> BackendName list" where
  "splice xs start deleteCount =
     (let n = int (length xs);
          k = nat (if start < 0 then max (n + start) 0 else min start n)
      in take k xs @ drop (k + deleteCount) xs)"

text \<open>Truthiness of what \<open>getItem\<close> returns: \<open>null\<close> and the empty string are falsy.\<close>

definition truthy :: "string option \<Rightarrow> bool" where
  "truthy v = (case v of None \<Rightarrow> False | Some x \<Rightarrow> x \<noteq> [])"

text \<open>
  \<open>localStorage.getItem(KEY_WEBGPU_LAST_STATUS) || 'none'\<close>, the persisted crash status
  as the code reads it.
\<close>

definition stored_status :: "Browser \<Rightarrow> string" where
  "stored_status b =
     (case localStorage b KEY_WEBGPU_LAST_STATUS of
        None \<Rightarrow> ''none''
      | Some v \<Rightarrow> if v = [] then ''none'' else v)"

definition crash_warning :: string where
  "crash_warning = ''This browser supports WebGPU. However, it was crashed at last execution with WebGPU. Therefore, WebDNN disabled WebGPU backend temporally.''"

definition crash_alert :: string where
  "crash_alert = ''This browser supports WebGPU. However, it was crashed at last execution with WebGPU. ''
     @ [CHR 0x0A, CHR 0x0A] @ ''Therefore, WebDNN disabled WebGPU backend temporally.''"

text \<open>
  Lines 127 to 152 of \<open>App.initialize\<close>: the availability the session goes on with,
  \<open>App\<close> and the browser. (Before line 127 the function looks up its DOM elements, and
  on Chrome for Android it returns without selecting any backend.)
\<close>

definition initialize_availability ::
  "(BackendName \<Rightarrow> bool) \<Rightarrow> App \<Rightarrow> Browser \<Rightarrow> BackendAvailability \<times> App \<times> Browser" where
  "initialize_availability checkAvailability this b =
     (let availability = getBackendAvailability checkAvailability in
      if status availability ''webgpu'' = Some True then
        (let this1 = this\<lparr>lastStatus := stored_status b\<rparr> in
         if lastStatus this1 = ''none'' then (availability, this1, b)
         else if lastStatus this1 = ''running'' \<or> lastStatus this1 = ''crashed'' then
           (let availability1 = availability
                  \<lparr>status := (status availability)(''webgpu'' \<mapsto> False),
                   defaultOrder := splice (defaultOrder availability)
                                     (indexOf (defaultOrder availability) ''webgpu'') 1\<rparr>;
                b1 = b\<lparr>localStorage := (localStorage b)(KEY_WEBGPU_LAST_STATUS \<mapsto> ''crashed''),
                       warned := warned b @ [crash_warning]\<rparr>
            in if \<not> truthy (localStorage b1 KEY_FLAG_WEBGPU_DISABLED_ALERT) then
                 (availability1, this1,
                  b1\<lparr>alerts := alerts b1 @ [crash_alert],
                     localStorage := (localStorage b1)(KEY_FLAG_WEBGPU_DISABLED_ALERT \<mapsto> ''1'')\<rparr>)
               else (availability1, this1, b1))
         else if lastStatus this1 = ''completed'' then (availability, this1, b)
         else (availability, this1, b))
      else (availability, this, b))"

text \<open>
  Modelled from the spec: \<open>WebDNN.init\<close> and \<open>WebDNN.runner\<close>, which \<open>App.initialize\<close>
  calls, are not part of the sources (\<open>webdnn.ts\<close> exports \<open>load\<close> instead). Following
  the spec's orchestrator, the kinds of the given order are tried in turn, with
  \<open>fallback\<close> last if the order lacks it, and the first that initialises becomes the
  runner; \<open>None\<close> when none does (the call rejects). \<open>init_ok\<close> says which backends
  initialise.
\<close>

definition WebDNN_init :: "(BackendName \<Rightarrow> bool) \<Rightarrow> BackendName list \<Rightarrow> Runner option" where
  "WebDNN_init init_ok order =
     (case find init_ok (order @ (if ''fallback'' \<in> set order then [] else [''fallback''])) of
        None \<Rightarrow> None
      | Some name \<Rightarrow> Some \<lparr>backendName = name, ignoreCache = False\<rparr>)"

text \<open>
  Lines 127 to 160 of \<open>App.initialize\<close>; when \<open>WebDNN.init\<close> rejects, \<open>initialize\<close>
  stops there and \<open>this.runner\<close> stays as it was.
\<close>

definition initialize ::
  "(BackendName \<Rightarrow> bool) \<Rightarrow> (BackendName \<Rightarrow> bool) \<Rightarrow> App \<Rightarrow> Browser \<Rightarrow> App \<times> Browser" where
  "initialize checkAvailability init_ok this b =
     (let (availability, this1, b1) = initialize_availability checkAvailability this b in
      case WebDNN_init init_ok (defaultOrder availability) of
        None \<Rightarrow> (this1, b1)
      | Some r \<Rightarrow> (this1\<lparr>runner := Some r\<rparr>, b1))"

text \<open>
  \<open>App.predict\<close>, lines 248 to 251, up to the call of \<open>run()\<close>; with no runner assigned,
  reading \<open>this.runner.backendName\<close> throws and nothing is written.
\<close>

definition predict_before_run :: "App \<Rightarrow> Browser \<Rightarrow> App \<times> Browser" where
  "predict_before_run this b =
     (case runner this of
        None \<Rightarrow> (this, b)
      | Some r \<Rightarrow>
          if backendName r = ''webgpu'' \<and> lastStatus this = ''none'' then
            (this\<lparr>lastStatus := ''running''\<rparr>,
             b\<lparr>localStorage := (localStorage b)(KEY_WEBGPU_LAST_STATUS \<mapsto> ''running'')\<rparr>)
          else (this, b))"

text \<open>\<open>App.predict\<close>, lines 255 to 258, after \<open>await this.runner.run()\<close> has resolved.\<close>

definition predict_after_run :: "App \<Rightarrow> Browser \<Rightarrow> App \<times> Browser" where
  "predict_after_run this b =
     (case runner this of
        None \<Rightarrow> (this, b)
      | Some r \<Rightarrow>
          if backendName r = ''webgpu'' \<and> lastStatus this = ''running'' then
            (this\<lparr>lastStatus := ''completed''\<rparr>,
             b\<lparr>localStorage := (localStorage b)(KEY_WEBGPU_LAST_STATUS \<mapsto> ''completed'')\<rparr>)
          else (this, b))"

text \<open>
  What happens to a browser over time. \<open>Start\<close>: a page is loaded and \<open>App.initialize\<close>
  runs on a new \<open>App\<close>, in an environment given by the availability and the
  initialisation of each backend. \<open>RunBegins\<close>: \<open>predict\<close> runs up to its call of
  \<open>run()\<close>. \<open>RunSettles\<close>: that \<open>run()\<close> resolves and \<open>predict\<close> goes on. A \<open>run()\<close>
  that rejects, or a process that dies in it, is a \<open>RunBegins\<close> with no \<open>RunSettles\<close>
  after it.
\<close>

datatype event = Start "BackendName \<Rightarrow> bool" "BackendName \<Rightarrow> bool" | RunBegins | RunSettles

record session =
  page :: App
  store :: Browser

fun step :: "event \<Rightarrow> session \<Rightarrow> session" where
  "step (Start checkAvailability init_ok) s =
     (let (this, b) = initialize checkAvailability init_ok new_App (store s)
      in \<lparr>page = this, store = b\<rparr>)"
| "step RunBegins s =
     (let (this, b) = predict_before_run (page s) (store s) in \<lparr>page = this, store = b\<rparr>)"
| "step RunSettles s =
     (let (this, b) = predict_after_run (page s) (store s) in \<lparr>page = this, store = b\<rparr>)"

text \<open>The states a browser can be in: any stored data, then any events.\<close>

inductive reachable :: "session \<Rightarrow> bool" where
  first: "reachable \<lparr>page = new_App, store = b\<rparr>"
| later: "reachable s \<Longrightarrow> reachable (step e s)"

text \<open>\<open>this.runner.backendName === 'webgpu'\<close>.\<close>

definition on_webgpu :: "App \<Rightarrow> bool" where
  "on_webgpu this = (case runner this of None \<Rightarrow> False | Some r \<Rightarrow> backendName r = ''webgpu'')"

text \<open>Two browsers for concrete runs: nothing stored, and a run left unfinished.\<close>

definition clean_browser :: Browser where
  "clean_browser = \<lparr>localStorage = Map.empty, alerts = [], warned = []\<rparr>"

definition crashed_browser :: Browser where
  "crashed_browser =
     \<lparr>localStorage = [KEY_WEBGPU_LAST_STATUS \<mapsto> ''running''], alerts = [], warned = []\<rparr>"

section \<open>Properties\<close>

lemma getBackendAvailability_status:
  "status (getBackendAvailability chk) =
     [''webgpu'' \<mapsto> chk ''webgpu'', ''webassembly'' \<mapsto> chk ''webassembly'',
      ''fallback'' \<mapsto> chk ''fallback'']"
  by (simp add: getBackendAvailability_def Let_def)

subsection \<open>The availability report\<close>

text \<open>
  C5. For every environment (every \<open>checkAvailability\<close>), \<open>getBackendAvailability()\<close>
  returns a status mapping whose keys are the three backend kinds, each with the value
  its class reports, and a \<open>defaultOrder\<close> that is the fixed order
  \<open>[webgpu, webassembly, fallback]\<close> filtered to exactly the kinds whose status is true:
  a kind with status false is never in it, and the kinds in it keep their relative
  order.
\<close>

theorem getBackendAvailability_defaultOrder:
  fixes checkAvailability :: "BackendName \<Rightarrow> bool"
  defines "a \<equiv> getBackendAvailability checkAvailability"
  shows "dom (status a) = {''webgpu'', ''webassembly'', ''fallback''}
    \<and> (\<forall>k \<in> dom (status a). status a k = Some (checkAvailability k))
    \<and> defaultOrder a =
        filter (\<lambda>k. status a k = Some True) [''webgpu'', ''webassembly'', ''fallback'']
    \<and> set (defaultOrder a) = {k. status a k = Some True}
    \<and> (\<forall>k. status a k = Some False \<longrightarrow> k \<notin> set (defaultOrder a))
    \<and> subseq (defaultOrder a) [''webgpu'', ''webassembly'', ''fallback'']"
proof -
  have st: "status a = [''webgpu'' \<mapsto> checkAvailability ''webgpu'',
      ''webassembly'' \<mapsto> checkAvailability ''webassembly'',
      ''fallback'' \<mapsto> checkAvailability ''fallback'']"
    unfolding a_def by (rule getBackendAvailability_status)
  have ord: "defaultOrder a =
      filter (\<lambda>k. status a k = Some True) [''webgpu'', ''webassembly'', ''fallback'']"
    unfolding a_def by (simp add: getBackendAvailability_def Let_def)
  have d: "dom (status a) = {''webgpu'', ''webassembly'', ''fallback''}"
    unfolding st by auto
  have v: "\<forall>k \<in> dom (status a). status a k = Some (checkAvailability k)"
    unfolding d unfolding st by simp
  have m: "k \<in> {''webgpu'', ''webassembly'', ''fallback''}" if "status a k = Some True" for k
    using that d by (metis domI)
  have s: "set (defaultOrder a) = {k. status a k = Some True}"
    unfolding ord set_filter using m by auto
  have f: "\<forall>k. status a k = Some False \<longrightarrow> k \<notin> set (defaultOrder a)"
    unfolding s by simp
  have q: "subseq (defaultOrder a) [''webgpu'', ''webassembly'', ''fallback'']"
    unfolding ord by (rule subseq_filter_left)
  from d v ord s f q show ?thesis by blast
qed

theorem getBackendAvailability_defaultOrder_witness:
  "status (getBackendAvailability (\<lambda>k. k \<noteq> ''webgpu'')) ''webgpu'' = Some False
   \<and> defaultOrder (getBackendAvailability (\<lambda>k. k \<noteq> ''webgpu'')) =
       [''webassembly'', ''fallback'']
   \<and> ''webgpu'' \<notin> set (defaultOrder (getBackendAvailability (\<lambda>k. k \<noteq> ''webgpu'')))"
  using getBackendAvailability_defaultOrder [of "\<lambda>k. k \<noteq> ''webgpu''"]
  by (simp add: getBackendAvailability_status)

subsection \<open>The attempt loop of \<open>load\<close>\<close>

declare load_loop.simps [simp del]

lemma load_loop_Nil:
  "array_at h r = [] \<Longrightarrow>
   load_loop classes directory initOption options r h s =
     (Inl (Error ''No backend is available''), h, s)"
  by (subst load_loop.simps) simp

lemma array_at_shift: "array_at (h\<lparr>cells := (cells h)(r \<mapsto> xs)\<rparr>) r = xs"
  by (simp add: array_at_def)

lemma load_loop_rejected:
  assumes "array_at h r = name # rest"
    and "initBackend classes name (options name) s = (Inl e, s1)"
  shows "load_loop classes directory initOption options r h s =
     (Inl e, h\<lparr>cells := (cells h)(r \<mapsto> rest)\<rparr>, s1)"
  using assms by (subst load_loop.simps) (simp add: Let_def)

lemma load_loop_null:
  assumes "array_at h r = name # rest"
    and "initBackend classes name (options name) s = (Inr None, s1)"
  shows "load_loop classes directory initOption options r h s =
     load_loop classes directory initOption options r (h\<lparr>cells := (cells h)(r \<mapsto> rest)\<rparr>) s1"
  using assms by (subst load_loop.simps) (simp add: Let_def)

lemma load_loop_runner:
  assumes "array_at h r = name # rest"
    and "initBackend classes name (options name) s = (Inr (Some made), s1)"
  shows "\<exists>res s2. load_loop classes directory initOption options r h s =
       (res, h\<lparr>cells := (cells h)(r \<mapsto> rest)\<rparr>, s2)
     \<and> (res = Inr (made\<lparr>ignoreCache := (ignoreCache_opt initOption = Some True)\<rparr>)
          \<or> (\<exists>d. res = Inl (Raised d)))"
  using assms
  by (subst load_loop.simps)
     (simp add: Let_def split: prod.splits outcome.splits conv.splits)

text \<open>The four ways \<open>initBackend\<close> can end.\<close>

lemma initBackend_cases:
  "(name \<notin> set descriptorRunners_keys \<and> \<not> in_descriptorRunners name
      \<and> initBackend classes name option s =
           (Inl (Error (''Unknown backend: '' @ dquote @ name @ dquote)), s))
   \<or> (\<exists>s1 d. initBackend classes name option s = (Inl (Raised d), s1))
   \<or> (\<exists>s1. initBackend classes name option s = (Inr None, s1))
   \<or> (\<exists>s1 made. initBackend classes name option s = (Inr (Some made), s1))"
  by (auto simp: initBackend_def in_descriptorRunners_def
      split: prod.splits sum.splits conv.splits)




lemma normalize_backendOrder_frame:
  assumes "normalize_backendOrder v h = (r, h1)"
  shows "fresh h \<le> r \<and> fresh h \<le> fresh h1 \<and> (\<forall>p < fresh h. cells h1 p = cells h p)"
  using assms
  by (cases v) (auto simp: normalize_backendOrder_def alloc_def array_at_def Let_def split: if_splits)

lemma load_loop_frame:
  "load_loop classes directory initOption options r h s = (res, h', s') \<Longrightarrow>
   fresh h' = fresh h \<and> (\<forall>p. p \<noteq> r \<longrightarrow> cells h' p = cells h p)"
proof (induction "array_at h r" arbitrary: h s)
  case Nil
  then show ?case by (simp add: load_loop_Nil)
next
  case (Cons name rest)
  have a: "array_at h r = name # rest" using Cons.hyps(2) by simp
  let ?h = "h\<lparr>cells := (cells h)(r \<mapsto> rest)\<rparr>"
  have r: "rest = array_at ?h r" by (simp add: array_at_shift)
  consider (e) s1 e where "initBackend classes name (options name) s = (Inl e, s1)"
    | (n) s1 where "initBackend classes name (options name) s = (Inr None, s1)"
    | (k) s1 made where "initBackend classes name (options name) s = (Inr (Some made), s1)"
    using initBackend_cases [of name classes "options name" s] by blast
  then show ?case
  proof cases
    case e
    from load_loop_rejected [where options = options and directory = directory
        and initOption = initOption, OF a e] Cons.prems
    show ?thesis by auto
  next
    case n
    with a Cons.prems have "load_loop classes directory initOption options r ?h s1 = (res, h', s')"
      by (simp add: load_loop_null)
    from Cons.hyps(1) [OF r this] show ?thesis by simp
  next
    case k
    from load_loop_runner [where options = options and directory = directory
        and initOption = initOption, OF a k] Cons.prems
    show ?thesis by auto
  qed
qed

lemma load_frame:
  assumes "load classes directory initOption h s = (res, h', s')"
  shows "\<forall>p < fresh h. cells h' p = cells h p"
proof -
  obtain r h1 where n: "normalize_backendOrder (backendOrder initOption) h = (r, h1)"
    by (cases "normalize_backendOrder (backendOrder initOption) h")
  from assms n obtain options where
    l: "load_loop classes directory initOption options r h1 s = (res, h', s')"
    by (simp add: load_def)
  from load_loop_frame [OF l] normalize_backendOrder_frame [OF n]
  show ?thesis by auto
qed

lemmas evaluate = load_def normalize_backendOrder_def attempted_order_def alloc_def array_at_def
  load_loop.simps initBackend_def try_new_init_def in_descriptorRunners_def
  descriptorRunners_keys_def Object_prototype_keys_def scripted_classes_def symbol_classes_def
  warming_classes_def no_options_def empty_heap_def quiet_def Let_def dquote_def

lemma load_attempted_order:
  "load classes directory initOption h s =
     load_loop classes directory initOption
       (case backendOptions initOption of None \<Rightarrow> Map.empty | Some m \<Rightarrow> m)
       (fst (normalize_backendOrder (backendOrder initOption) h))
       (snd (normalize_backendOrder (backendOrder initOption) h)) s
   \<and> array_at (snd (normalize_backendOrder (backendOrder initOption) h))
        (fst (normalize_backendOrder (backendOrder initOption) h))
      = attempted_order (backendOrder initOption) h"
  by (cases "normalize_backendOrder (backendOrder initOption) h")
     (simp add: load_def attempted_order_def)

text \<open>
  C1 (the code does otherwise). The claim: the runner \<open>load\<close> returns is one whose
  \<open>init()\<close> and \<open>load()\<close> both succeeded, and a candidate whose \<open>load\<close> rejects is
  discarded and the next kind tried. In the source the \<open>return runner\<close> follows the
  \<open>try/catch\<close> unconditionally. Here every backend initialises and only webgpu's
  \<open>load\<close> rejects: \<open>load\<close> logs "Trying next backend" and resolves with the webgpu
  runner; webassembly is never constructed.
\<close>

theorem load_returns_runner_after_failed_load:
  "fst (load (scripted_classes (\<lambda>name. True) (\<lambda>name. name \<noteq> ''webgpu'')) ''./model''
          no_options empty_heap quiet)
     = Inr \<lparr>backendName = ''webgpu'', ignoreCache = False\<rparr>
   \<and> snd (snd (load (scripted_classes (\<lambda>name. True) (\<lambda>name. name \<noteq> ''webgpu'')) ''./model''
          no_options empty_heap quiet))
     = \<lparr>world = [''new webgpu'', ''init webgpu'', ''load webgpu''],
        console = [''Model loading failed for webgpu backend. Trying next backend: fetch failed'']\<rparr>"
  by (simp add: evaluate)

text \<open>
  C2 (the code does otherwise). The claim: \<open>fallback\<close> is appended to the order when
  absent, so it is attempted last. The source calls \<open>backendOrder.concat(['fallback'])\<close>
  and drops the result. Here only the fallback backend can initialise and the caller
  gives no order: the attempted order is \<open>[webgpu, webassembly]\<close>, fallback is never
  constructed, and \<open>load\<close> rejects.
\<close>

theorem load_default_order_never_tries_fallback:
  "attempted_order Undefined empty_heap = [''webgpu'', ''webassembly'']
   \<and> fst (load (scripted_classes (\<lambda>name. name = ''fallback'') (\<lambda>name. True)) ''./model''
          no_options empty_heap quiet)
     = Inl (Error ''No backend is available'')
   \<and> snd (snd (load (scripted_classes (\<lambda>name. name = ''fallback'') (\<lambda>name. True)) ''./model''
          no_options empty_heap quiet))
     = \<lparr>world = [''new webgpu'', ''init webgpu'', ''new webassembly'', ''init webassembly''],
        console = [''Failed to initialize webgpu backend: Error: no device'',
                   ''Failed to initialize webassembly backend: Error: no device'']\<rparr>"
  by (simp add: evaluate)





text \<open>
  C8 (the code does otherwise). The claim: a name that is not a key of the registry
  fails at once with the \<open>Unknown backend\<close> error, which \<open>load\<close> propagates. The guard is
  \<open>backendName in descriptorRunners\<close>, and \<open>in\<close> also holds for the property names the
  object inherits. \<open>toString\<close> is not a key of the registry, yet it passes the guard:
  the construction fails inside the \<open>try\<close>, is logged, and \<open>load\<close> treats it as a
  recoverable failure, where the name \<open>foo\<close> is rejected as unknown.
\<close>

theorem initBackend_inherited_name_passes_guard:
  "''toString'' \<notin> set descriptorRunners_keys
   \<and> initBackend (scripted_classes (\<lambda>name. True) (\<lambda>name. True)) ''toString'' None quiet =
       (Inr None,
        \<lparr>world = [],
         console = [''Failed to initialize toString backend: TypeError: descriptorRunners[backendName] is not a constructor'']\<rparr>)
   \<and> fst (load (scripted_classes (\<lambda>name. True) (\<lambda>name. True)) ''./model''
            (no_options\<lparr>backendOrder := Str ''toString''\<rparr>) empty_heap quiet)
       = Inl (Error ''No backend is available'')
   \<and> fst (load (scripted_classes (\<lambda>name. True) (\<lambda>name. True)) ''./model''
            (no_options\<lparr>backendOrder := Str ''foo''\<rparr>) empty_heap quiet)
       = Inl (Error (''Unknown backend: '' @ dquote @ ''foo'' @ dquote))"
  by (simp add: evaluate)

text \<open>
  The name \<open>constructor\<close> passes the guard as well, and there \<open>new Object(option)\<close> is
  the option value: with an option that has an \<open>init\<close> method (classes that answer
  \<open>init\<close> for every object), \<open>load\<close> even resolves with that object.
\<close>

lemma constructor_can_yield_a_runner:
  "fst (load (scripted_classes (\<lambda>name. True) (\<lambda>name. True)) ''./model''
          (no_options\<lparr>backendOrder := Str ''constructor''\<rparr>) empty_heap quiet)
     = Inr \<lparr>backendName = ''constructor'', ignoreCache = False\<rparr>"
  by (simp add: evaluate)

text \<open>
  C9. \<open>load\<close> runs its loop on the attempted order of \<open>initOption.backendOrder\<close>; for a
  single backend name (a non-empty string) that order is the one-element sequence of
  the name, and when \<open>backendOrder\<close> is absent it is \<open>[webgpu, webassembly]\<close>.
\<close>

theorem load_backendOrder_default_and_single:
  fixes classes :: "('w, 'o, 'c) runner_classes"
  shows "(\<exists>options r h1. load classes directory initOption h s =
              load_loop classes directory initOption options r h1 s
            \<and> array_at h1 r = attempted_order (backendOrder initOption) h)
    \<and> (name \<noteq> [] \<longrightarrow> attempted_order (Str name) h = [name])
    \<and> attempted_order Undefined h = [''webgpu'', ''webassembly'']"
proof -
  have 1: "attempted_order (Str name) h = [name]" if "name \<noteq> []"
    using that by (simp add: attempted_order_def normalize_backendOrder_def alloc_def
        array_at_def Let_def)
  have 2: "attempted_order Undefined h = [''webgpu'', ''webassembly'']"
    by (simp add: attempted_order_def normalize_backendOrder_def alloc_def array_at_def Let_def)
  from 1 2 load_attempted_order [of classes directory initOption h s] show ?thesis by blast
qed

theorem load_backendOrder_default_and_single_witness:
  "attempted_order (Str ''webassembly'') empty_heap = [''webassembly'']
   \<and> snd (snd (load (scripted_classes (\<lambda>name. True) (\<lambda>name. True)) ''./model''
            (no_options\<lparr>backendOrder := Str ''webassembly''\<rparr>) empty_heap quiet))
       = \<lparr>world = [''new webassembly'', ''init webassembly'', ''load webassembly''], console = []\<rparr>"
  using load_backendOrder_default_and_single [of "scripted_classes (\<lambda>name. True) (\<lambda>name. True)"
      "''./model''" "no_options\<lparr>backendOrder := Str ''webassembly''\<rparr>" empty_heap quiet
      "''webassembly''"]
  by (simp add: evaluate)

text \<open>
  C10. When the caller passes an array as \<open>backendOrder\<close> (a reference \<open>p\<close> allocated
  before the call), the array holds the same elements in the same order after \<open>load\<close>
  settles, whether it resolves or rejects: \<open>load\<close> shifts only its own copy, and
  changes no array that existed before the call.
\<close>

theorem load_leaves_caller_array:
  fixes classes :: "('w, 'o, 'c) runner_classes"
  assumes "backendOrder initOption = Arr p" and "p < fresh h"
  shows "cells (fst (snd (load classes directory initOption h s))) p = cells h p
    \<and> array_at (fst (snd (load classes directory initOption h s))) p = array_at h p
    \<and> (\<forall>q < fresh h. cells (fst (snd (load classes directory initOption h s))) q = cells h q)"
proof -
  obtain res h' s' where l: "load classes directory initOption h s = (res, h', s')"
    by (cases "load classes directory initOption h s")
  from load_frame [OF l] have "\<forall>q < fresh h. cells h' q = cells h q" .
  with assms(2) l show ?thesis by (simp add: array_at_def)
qed

theorem load_leaves_caller_array_witness:
  "array_at (fst (snd (load (scripted_classes (\<lambda>name. name \<noteq> ''webgpu'') (\<lambda>name. True)) ''./model''
      (no_options\<lparr>backendOrder := Arr 0\<rparr>) two_backends quiet))) 0 = [''webgpu'', ''webassembly'']
   \<and> fst (load (scripted_classes (\<lambda>name. name \<noteq> ''webgpu'') (\<lambda>name. True)) ''./model''
      (no_options\<lparr>backendOrder := Arr 0\<rparr>) two_backends quiet)
       = Inr \<lparr>backendName = ''webassembly'', ignoreCache = False\<rparr>"
proof -
  have 1: "backendOrder (no_options\<lparr>backendOrder := Arr 0\<rparr>) = Arr 0" by simp
  have 2: "0 < fresh two_backends" by (simp add: two_backends_def)
  from load_leaves_caller_array [OF 1 2, of "scripted_classes (\<lambda>name. name \<noteq> ''webgpu'') (\<lambda>name. True)"
      "''./model''" quiet]
  have "array_at (fst (snd (load (scripted_classes (\<lambda>name. name \<noteq> ''webgpu'') (\<lambda>name. True)) ''./model''
      (no_options\<lparr>backendOrder := Arr 0\<rparr>) two_backends quiet))) 0 = array_at two_backends 0"
    by blast
  then show ?thesis by (simp add: evaluate two_backends_def)
qed

subsection \<open>The crash tracker\<close>

lemma WebDNN_init_in_order:
  "WebDNN_init init_ok order = Some r \<Longrightarrow> backendName r \<in> set order \<or> backendName r = ''fallback''"
  by (auto simp: WebDNN_init_def find_Some_iff nth_append split: option.splits if_splits)

lemma keys_differ [simp]:
  "KEY_FLAG_WEBGPU_DISABLED_ALERT \<noteq> KEY_WEBGPU_LAST_STATUS"
  "KEY_WEBGPU_LAST_STATUS \<noteq> KEY_FLAG_WEBGPU_DISABLED_ALERT"
  by (simp_all add: KEY_FLAG_WEBGPU_DISABLED_ALERT_def KEY_WEBGPU_LAST_STATUS_def)

lemma defaultOrder_webgpu:
  "checkAvailability ''webgpu'' \<Longrightarrow>
   splice (defaultOrder (getBackendAvailability checkAvailability))
     (indexOf (defaultOrder (getBackendAvailability checkAvailability)) ''webgpu'') 1
   = filter (\<lambda>k. k \<noteq> ''webgpu'') (defaultOrder (getBackendAvailability checkAvailability))"
  by (simp add: getBackendAvailability_def splice_def Let_def)

lemma defaultOrder_no_webgpu:
  "\<not> checkAvailability ''webgpu'' \<Longrightarrow>
   ''webgpu'' \<notin> set (defaultOrder (getBackendAvailability checkAvailability))"
  by (simp add: getBackendAvailability_def Let_def)

lemma status_webgpu:
  "status (getBackendAvailability checkAvailability) ''webgpu'' = Some (checkAvailability ''webgpu'')"
  by (simp add: getBackendAvailability_status)

text \<open>The three ways \<open>initialize_availability\<close> can go.\<close>

lemma initialize_availability_cases:
  fixes checkAvailability this b
  defines "a \<equiv> getBackendAvailability checkAvailability"
  shows "(\<not> checkAvailability ''webgpu''
          \<and> initialize_availability checkAvailability this b = (a, this, b))
    \<or> (checkAvailability ''webgpu'' \<and> stored_status b \<noteq> ''running'' \<and> stored_status b \<noteq> ''crashed''
          \<and> initialize_availability checkAvailability this b =
              (a, this\<lparr>lastStatus := stored_status b\<rparr>, b))
    \<or> (checkAvailability ''webgpu'' \<and> (stored_status b = ''running'' \<or> stored_status b = ''crashed'')
          \<and> initialize_availability checkAvailability this b =
              (a\<lparr>status := (status a)(''webgpu'' \<mapsto> False),
                 defaultOrder := filter (\<lambda>k. k \<noteq> ''webgpu'') (defaultOrder a)\<rparr>,
               this\<lparr>lastStatus := stored_status b\<rparr>,
               b\<lparr>localStorage :=
                    (if truthy (localStorage b KEY_FLAG_WEBGPU_DISABLED_ALERT)
                     then (localStorage b)(KEY_WEBGPU_LAST_STATUS \<mapsto> ''crashed'')
                     else (localStorage b)(KEY_WEBGPU_LAST_STATUS \<mapsto> ''crashed'',
                            KEY_FLAG_WEBGPU_DISABLED_ALERT \<mapsto> ''1'')),
                  warned := warned b @ [crash_warning],
                  alerts := (if truthy (localStorage b KEY_FLAG_WEBGPU_DISABLED_ALERT)
                             then alerts b else alerts b @ [crash_alert])\<rparr>))"
proof (cases "checkAvailability ''webgpu''")
  case False
  then show ?thesis
    by (simp add: initialize_availability_def status_webgpu a_def)
next
  case True
  show ?thesis
  proof (cases "stored_status b = ''running'' \<or> stored_status b = ''crashed''")
    case False
    with True show ?thesis
      by (simp add: initialize_availability_def status_webgpu a_def Let_def)
  next
    case c: True
    have o: "splice (defaultOrder (getBackendAvailability checkAvailability))
        (indexOf (defaultOrder (getBackendAvailability checkAvailability)) ''webgpu'') (Suc 0)
      = filter (\<lambda>k. k \<noteq> ''webgpu'') (defaultOrder (getBackendAvailability checkAvailability))"
      using True defaultOrder_webgpu [of checkAvailability] by simp
    from c show ?thesis
    proof
      assume st: "stored_status b = ''running''"
      with True show ?thesis
        unfolding a_def
        by (simp add: initialize_availability_def status_webgpu Let_def o)
    next
      assume st: "stored_status b = ''crashed''"
      with True show ?thesis
        unfolding a_def
        by (simp add: initialize_availability_def status_webgpu Let_def o)
    qed
  qed
qed

lemma stored_status_flag [simp]:
  "stored_status (b\<lparr>localStorage := (localStorage b)(KEY_FLAG_WEBGPU_DISABLED_ALERT \<mapsto> v)\<rparr>)
     = stored_status b"
  by (simp add: stored_status_def)

lemma stored_status_write:
  "v \<noteq> [] \<Longrightarrow>
   stored_status (b\<lparr>localStorage := (localStorage b)(KEY_WEBGPU_LAST_STATUS \<mapsto> v)\<rparr>) = v"
  by (simp add: stored_status_def)

text \<open>What a session start leaves, by the three ways of \<open>initialize_availability\<close>.\<close>

lemma initialize_new_App:
  assumes "initialize checkAvailability init_ok new_App b = (this, b')"
  shows "(on_webgpu this \<longrightarrow> lastStatus this = stored_status b \<and> b' = b)
    \<and> (stored_status b' = stored_status b
         \<or> checkAvailability ''webgpu'' \<and> stored_status b = ''running''
             \<and> stored_status b' = ''crashed'')
    \<and> (truthy (localStorage b KEY_FLAG_WEBGPU_DISABLED_ALERT) \<longrightarrow>
          truthy (localStorage b' KEY_FLAG_WEBGPU_DISABLED_ALERT) \<and> alerts b' = alerts b)
    \<and> (alerts b' = alerts b
         \<or> alerts b' = alerts b @ [crash_alert]
             \<and> truthy (localStorage b' KEY_FLAG_WEBGPU_DISABLED_ALERT))"
proof -
  let ?a = "getBackendAvailability checkAvailability"
  obtain av this1 where
    ia: "initialize_availability checkAvailability new_App b = (av, this1, b')"
    and w: "this = this1 \<or> (\<exists>r. WebDNN_init init_ok (defaultOrder av) = Some r
              \<and> this = this1\<lparr>runner := Some r\<rparr>)"
    using assms
    by (cases "initialize_availability checkAvailability new_App b")
       (auto simp: initialize_def split: option.splits)
  have n: "\<not> on_webgpu this" if "''webgpu'' \<notin> set (defaultOrder av)" "runner this1 = None"
    using w that by (auto simp: on_webgpu_def dest: WebDNN_init_in_order)
  from initialize_availability_cases [of checkAvailability new_App b]
  consider (unavailable) "\<not> checkAvailability ''webgpu''" "av = ?a" "this1 = new_App" "b' = b"
    | (eligible) "checkAvailability ''webgpu''" "av = ?a"
        "this1 = new_App\<lparr>lastStatus := stored_status b\<rparr>" "b' = b"
    | (crashed) "checkAvailability ''webgpu''"
        "stored_status b = ''running'' \<or> stored_status b = ''crashed''"
        "defaultOrder av = filter (\<lambda>k. k \<noteq> ''webgpu'') (defaultOrder ?a)"
        "this1 = new_App\<lparr>lastStatus := stored_status b\<rparr>"
        "b' = b\<lparr>localStorage :=
                    (if truthy (localStorage b KEY_FLAG_WEBGPU_DISABLED_ALERT)
                     then (localStorage b)(KEY_WEBGPU_LAST_STATUS \<mapsto> ''crashed'')
                     else (localStorage b)(KEY_WEBGPU_LAST_STATUS \<mapsto> ''crashed'',
                            KEY_FLAG_WEBGPU_DISABLED_ALERT \<mapsto> ''1'')),
                  warned := warned b @ [crash_warning],
                  alerts := (if truthy (localStorage b KEY_FLAG_WEBGPU_DISABLED_ALERT)
                             then alerts b else alerts b @ [crash_alert])\<rparr>"
    unfolding ia by auto
  then show ?thesis
  proof cases
    case unavailable
    then have "\<not> on_webgpu this"
      using n defaultOrder_no_webgpu [of checkAvailability] by (simp add: new_App_def)
    with unavailable show ?thesis by simp
  next
    case eligible
    have "lastStatus this = stored_status b"
      using w eligible by auto
    with eligible show ?thesis by simp
  next
    case crashed
    have "\<not> on_webgpu this"
      using n crashed by (simp add: new_App_def)
    moreover have "stored_status b' = ''crashed''"
      unfolding crashed by (simp add: stored_status_def)
    ultimately show ?thesis
      using crashed by (auto simp: truthy_def)
  qed
qed

lemma tracker_invariant:
  "reachable s \<Longrightarrow> on_webgpu (page s) \<Longrightarrow> lastStatus (page s) = stored_status (store s)"
proof (induction rule: reachable.induct)
  case (first b)
  then show ?case by (simp add: on_webgpu_def new_App_def)
next
  case (later s e)
  show ?case
  proof (cases e)
    case (Start checkAvailability init_ok)
    obtain this b where
      i: "initialize checkAvailability init_ok new_App (store s) = (this, b)"
      by (cases "initialize checkAvailability init_ok new_App (store s)")
    from initialize_new_App [OF i] later.prems show ?thesis
      by (simp add: Start i)
  next
    case RunBegins
    with later show ?thesis
      by (auto simp: predict_before_run_def on_webgpu_def stored_status_write
          split: option.splits if_splits)
  next
    case RunSettles
    with later show ?thesis
      by (auto simp: predict_after_run_def on_webgpu_def stored_status_write
          split: option.splits if_splits)
  qed
qed

lemma step_RunBegins_store:
  "store (step RunBegins s) =
     (if on_webgpu (page s) \<and> lastStatus (page s) = ''none''
      then (store s)\<lparr>localStorage := (localStorage (store s))(KEY_WEBGPU_LAST_STATUS \<mapsto> ''running'')\<rparr>
      else store s)"
  by (simp add: predict_before_run_def on_webgpu_def split: option.splits)

lemma step_RunSettles_store:
  "store (step RunSettles s) =
     (if on_webgpu (page s) \<and> lastStatus (page s) = ''running''
      then (store s)\<lparr>localStorage := (localStorage (store s))(KEY_WEBGPU_LAST_STATUS \<mapsto> ''completed'')\<rparr>
      else store s)"
  by (simp add: predict_after_run_def on_webgpu_def split: option.splits)

lemma step_alert:
  "(truthy (localStorage (store s) KEY_FLAG_WEBGPU_DISABLED_ALERT) \<longrightarrow>
      truthy (localStorage (store (step e s)) KEY_FLAG_WEBGPU_DISABLED_ALERT)
      \<and> alerts (store (step e s)) = alerts (store s))
   \<and> (alerts (store (step e s)) = alerts (store s)
       \<or> alerts (store (step e s)) = alerts (store s) @ [crash_alert]
           \<and> truthy (localStorage (store (step e s)) KEY_FLAG_WEBGPU_DISABLED_ALERT))"
proof (cases e)
  case (Start checkAvailability init_ok)
  obtain this b where
    i: "initialize checkAvailability init_ok new_App (store s) = (this, b)"
    by (cases "initialize checkAvailability init_ok new_App (store s)")
  from initialize_new_App [OF i] show ?thesis
    by (simp add: Start i)
next
  case RunBegins
  then show ?thesis by (simp add: step_RunBegins_store del: step.simps)
next
  case RunSettles
  then show ?thesis by (simp add: step_RunSettles_store del: step.simps)
qed

lemma no_alert_once_flagged:
  "truthy (localStorage (store s) KEY_FLAG_WEBGPU_DISABLED_ALERT) \<Longrightarrow>
   alerts (store (fold step events s)) = alerts (store s)"
proof (induction events arbitrary: s)
  case Nil
  then show ?case by simp
next
  case (Cons e events)
  from step_alert [of s e] Cons.prems
  have "truthy (localStorage (store (step e s)) KEY_FLAG_WEBGPU_DISABLED_ALERT)"
    and "alerts (store (step e s)) = alerts (store s)"
    by simp_all
  with Cons.IH [of "step e s"] show ?case by simp
qed

lemma at_most_one_alert:
  "length (alerts (store (fold step events s))) \<le> Suc (length (alerts (store s)))"
proof (induction events arbitrary: s)
  case Nil
  then show ?case by simp
next
  case (Cons e events)
  from step_alert [of s e]
  consider "alerts (store (step e s)) = alerts (store s)"
    | "alerts (store (step e s)) = alerts (store s) @ [crash_alert]"
      "truthy (localStorage (store (step e s)) KEY_FLAG_WEBGPU_DISABLED_ALERT)"
    by blast
  then show ?case
  proof cases
    case 1
    with Cons.IH [of "step e s"] show ?thesis by simp
  next
    case 2
    with no_alert_once_flagged [of "step e s" events] show ?thesis by simp
  qed
qed

lemma Start_keeps_webgpu:
  assumes "checkAvailability ''webgpu''" and "init_ok ''webgpu''"
    and "stored_status (store s) \<noteq> ''running''" and "stored_status (store s) \<noteq> ''crashed''"
  shows "on_webgpu (page (step (Start checkAvailability init_ok) s))"
proof -
  from initialize_availability_cases [of checkAvailability new_App "store s"] assms
  have ia: "initialize_availability checkAvailability new_App (store s) =
      (getBackendAvailability checkAvailability,
       new_App\<lparr>lastStatus := stored_status (store s)\<rparr>, store s)"
    by auto
  have "WebDNN_init init_ok (defaultOrder (getBackendAvailability checkAvailability))
      = Some \<lparr>backendName = ''webgpu'', ignoreCache = False\<rparr>"
    using assms(1,2) by (simp add: WebDNN_init_def getBackendAvailability_def Let_def)
  then show ?thesis
    by (simp add: initialize_def ia on_webgpu_def)
qed

text \<open>
  C6. In every state a browser can reach, an event changes the persisted crash status
  only in one of three ways: from \<open>none\<close> to \<open>running\<close> when \<open>run()\<close> begins on the
  webgpu runner, from \<open>running\<close> to \<open>completed\<close> when that \<open>run()\<close> settles without
  error, and from \<open>running\<close> to \<open>crashed\<close> at a session start with webgpu available
  (a start that reads \<open>crashed\<close> writes \<open>crashed\<close> again, which changes nothing). The
  first two do happen on the webgpu runner, and a session that starts from
  \<open>completed\<close> keeps webgpu in the availability and can run on it.
\<close>

theorem crash_status_transitions:
  assumes "reachable s"
  shows "(stored_status (store (step e s)) = stored_status (store s)
      \<or> e = RunBegins \<and> on_webgpu (page s) \<and> stored_status (store s) = ''none''
          \<and> stored_status (store (step e s)) = ''running''
      \<or> e = RunSettles \<and> on_webgpu (page s) \<and> stored_status (store s) = ''running''
          \<and> stored_status (store (step e s)) = ''completed''
      \<or> (\<exists>available init_ok. e = Start available init_ok \<and> available ''webgpu'')
          \<and> stored_status (store s) = ''running''
          \<and> stored_status (store (step e s)) = ''crashed'')
    \<and> (on_webgpu (page s) \<and> stored_status (store s) = ''none'' \<longrightarrow>
          stored_status (store (step RunBegins s)) = ''running'')
    \<and> (on_webgpu (page s) \<and> stored_status (store s) = ''running'' \<longrightarrow>
          stored_status (store (step RunSettles s)) = ''completed'')
    \<and> (stored_status (store s) = ''completed'' \<and> checkAvailability ''webgpu'' \<longrightarrow>
          fst (initialize_availability checkAvailability new_App (store s))
            = getBackendAvailability checkAvailability
          \<and> status (getBackendAvailability checkAvailability) ''webgpu'' = Some True
          \<and> ''webgpu'' \<in> set (defaultOrder (getBackendAvailability checkAvailability))
          \<and> (init_ok ''webgpu'' \<longrightarrow>
                on_webgpu (page (step (Start checkAvailability init_ok) s))))"
proof -
  note inv = tracker_invariant [OF assms]
  have begins: "stored_status (store (step RunBegins s)) = ''running''"
    if "on_webgpu (page s)" "stored_status (store s) = ''none''"
    using that inv by (simp add: step_RunBegins_store stored_status_write del: step.simps)
  have settles: "stored_status (store (step RunSettles s)) = ''completed''"
    if "on_webgpu (page s)" "stored_status (store s) = ''running''"
    using that inv by (simp add: step_RunSettles_store stored_status_write del: step.simps)
  have change: "stored_status (store (step e s)) = stored_status (store s)
      \<or> e = RunBegins \<and> on_webgpu (page s) \<and> stored_status (store s) = ''none''
          \<and> stored_status (store (step e s)) = ''running''
      \<or> e = RunSettles \<and> on_webgpu (page s) \<and> stored_status (store s) = ''running''
          \<and> stored_status (store (step e s)) = ''completed''
      \<or> (\<exists>available init_ok. e = Start available init_ok \<and> available ''webgpu'')
          \<and> stored_status (store s) = ''running''
          \<and> stored_status (store (step e s)) = ''crashed''"
  proof (cases e)
    case (Start available init_ok)
    obtain this b where
      i: "initialize available init_ok new_App (store s) = (this, b)"
      by (cases "initialize available init_ok new_App (store s)")
    from initialize_new_App [OF i] show ?thesis
      by (auto simp: Start i)
  next
    case RunBegins
    show ?thesis
    proof (cases "on_webgpu (page s) \<and> lastStatus (page s) = ''none''")
      case True
      with inv begins RunBegins show ?thesis by simp
    next
      case False
      with RunBegins show ?thesis by (auto simp: step_RunBegins_store simp del: step.simps)
    qed
  next
    case RunSettles
    show ?thesis
    proof (cases "on_webgpu (page s) \<and> lastStatus (page s) = ''running''")
      case True
      with inv settles RunSettles show ?thesis by simp
    next
      case False
      with RunSettles show ?thesis by (auto simp: step_RunSettles_store simp del: step.simps)
    qed
  qed
  have again: "fst (initialize_availability checkAvailability new_App (store s))
            = getBackendAvailability checkAvailability
          \<and> status (getBackendAvailability checkAvailability) ''webgpu'' = Some True
          \<and> ''webgpu'' \<in> set (defaultOrder (getBackendAvailability checkAvailability))
          \<and> (init_ok ''webgpu'' \<longrightarrow>
                on_webgpu (page (step (Start checkAvailability init_ok) s)))"
    if c: "stored_status (store s) = ''completed''" and a: "checkAvailability ''webgpu''"
  proof -
    from initialize_availability_cases [of checkAvailability new_App "store s"] c a
    have "fst (initialize_availability checkAvailability new_App (store s))
            = getBackendAvailability checkAvailability"
      by auto
    moreover have "''webgpu'' \<in> set (defaultOrder (getBackendAvailability checkAvailability))"
      using a by (simp add: getBackendAvailability_def Let_def)
    moreover have "on_webgpu (page (step (Start checkAvailability init_ok) s))"
      if "init_ok ''webgpu''"
      using a that c by (intro Start_keeps_webgpu) simp_all
    ultimately show ?thesis using a by (simp add: status_webgpu)
  qed
  from change begins settles again show ?thesis by blast
qed

lemmas evaluate_tracker = initialize_def initialize_availability_def getBackendAvailability_def
  WebDNN_init_def predict_before_run_def predict_after_run_def stored_status_def truthy_def
  on_webgpu_def new_App_def splice_def clean_browser_def crashed_browser_def
  KEY_WEBGPU_LAST_STATUS_def KEY_FLAG_WEBGPU_DISABLED_ALERT_def Let_def

theorem crash_status_transitions_witness:
  "on_webgpu (page (step (Start (\<lambda>k. True) (\<lambda>k. True)) \<lparr>page = new_App, store = clean_browser\<rparr>))
   \<and> stored_status (store (step (Start (\<lambda>k. True) (\<lambda>k. True))
        \<lparr>page = new_App, store = clean_browser\<rparr>)) = ''none''
   \<and> stored_status (store (step RunBegins (step (Start (\<lambda>k. True) (\<lambda>k. True))
        \<lparr>page = new_App, store = clean_browser\<rparr>))) = ''running''
   \<and> stored_status (store (step RunSettles (step RunBegins (step (Start (\<lambda>k. True) (\<lambda>k. True))
        \<lparr>page = new_App, store = clean_browser\<rparr>)))) = ''completed''
   \<and> on_webgpu (page (step (Start (\<lambda>k. True) (\<lambda>k. True))
        (step RunSettles (step RunBegins (step (Start (\<lambda>k. True) (\<lambda>k. True))
        \<lparr>page = new_App, store = clean_browser\<rparr>)))))"
proof -
  let ?s1 = "step (Start (\<lambda>k. True) (\<lambda>k. True)) \<lparr>page = new_App, store = clean_browser\<rparr>"
  let ?s2 = "step RunBegins ?s1"
  let ?s3 = "step RunSettles ?s2"
  have r1: "reachable ?s1" by (intro reachable.intros)
  then have r2: "reachable ?s2" by (rule reachable.later)
  then have r3: "reachable ?s3" by (rule reachable.later)
  have w1: "on_webgpu (page ?s1)" and n1: "stored_status (store ?s1) = ''none''"
    by (simp_all add: evaluate_tracker)
  have w2: "on_webgpu (page ?s2)"
    by (simp add: evaluate_tracker)
  from crash_status_transitions [OF r1] w1 n1
  have 2: "stored_status (store ?s2) = ''running''" by blast
  from crash_status_transitions [OF r2] w2 2
  have 3: "stored_status (store ?s3) = ''completed''" by blast
  from crash_status_transitions [OF r3, of _ "\<lambda>k. True" "\<lambda>k. True"] 3
  have 4: "on_webgpu (page (step (Start (\<lambda>k. True) (\<lambda>k. True)) ?s3))" by blast
  from w1 n1 2 3 4 show ?thesis by blast
qed

text \<open>
  C7. A session that starts (\<open>App.initialize\<close> from line 127 on) with the persisted crash
  status \<open>running\<close> while webgpu is available sets webgpu's status to false and takes it
  out of \<open>defaultOrder\<close> (the other kinds stay, in order), writes \<open>crashed\<close>, and shows the
  alert exactly when the alert flag is unset; the flag is set afterwards, the session
  does not run on webgpu, and nothing that follows shows the alert again. From any
  state, all events together add at most one alert.
\<close>

theorem crash_detected_at_session_start:
  fixes checkAvailability init_ok :: "BackendName \<Rightarrow> bool" and b :: Browser and this :: App
  assumes "localStorage b KEY_WEBGPU_LAST_STATUS = Some ''running''"
    and "checkAvailability ''webgpu''"
  defines "availability \<equiv> fst (initialize_availability checkAvailability new_App b)"
    and "b' \<equiv> snd (snd (initialize_availability checkAvailability new_App b))"
    and "s' \<equiv> step (Start checkAvailability init_ok) \<lparr>page = this, store = b\<rparr>"
  shows "status availability ''webgpu'' = Some False
    \<and> ''webgpu'' \<notin> set (defaultOrder availability)
    \<and> defaultOrder availability =
        filter (\<lambda>k. k \<noteq> ''webgpu'') (defaultOrder (getBackendAvailability checkAvailability))
    \<and> localStorage b' KEY_WEBGPU_LAST_STATUS = Some ''crashed''
    \<and> alerts b' = (if truthy (localStorage b KEY_FLAG_WEBGPU_DISABLED_ALERT)
                    then alerts b else alerts b @ [crash_alert])
    \<and> truthy (localStorage b' KEY_FLAG_WEBGPU_DISABLED_ALERT)
    \<and> store s' = b' \<and> \<not> on_webgpu (page s')
    \<and> (\<forall>events. alerts (store (fold step events s')) = alerts b')
    \<and> (\<forall>events s. length (alerts (store (fold step events s))) \<le> Suc (length (alerts (store s))))"
proof -
  have st: "stored_status b = ''running''"
    using assms(1) by (simp add: stored_status_def)
  let ?a = "getBackendAvailability checkAvailability"
  from initialize_availability_cases [of checkAvailability new_App b] st assms(2)
  have ia: "initialize_availability checkAvailability new_App b =
      (?a\<lparr>status := (status ?a)(''webgpu'' \<mapsto> False),
          defaultOrder := filter (\<lambda>k. k \<noteq> ''webgpu'') (defaultOrder ?a)\<rparr>,
       new_App\<lparr>lastStatus := stored_status b\<rparr>,
       b\<lparr>localStorage :=
            (if truthy (localStorage b KEY_FLAG_WEBGPU_DISABLED_ALERT)
             then (localStorage b)(KEY_WEBGPU_LAST_STATUS \<mapsto> ''crashed'')
             else (localStorage b)(KEY_WEBGPU_LAST_STATUS \<mapsto> ''crashed'',
                    KEY_FLAG_WEBGPU_DISABLED_ALERT \<mapsto> ''1'')),
          warned := warned b @ [crash_warning],
          alerts := (if truthy (localStorage b KEY_FLAG_WEBGPU_DISABLED_ALERT)
                     then alerts b else alerts b @ [crash_alert])\<rparr>)"
    by auto
  have 1: "status availability ''webgpu'' = Some False"
    and 2: "defaultOrder availability = filter (\<lambda>k. k \<noteq> ''webgpu'') (defaultOrder ?a)"
    unfolding availability_def ia by simp_all
  have 3: "''webgpu'' \<notin> set (defaultOrder availability)"
    unfolding 2 by simp
  have 4: "localStorage b' KEY_WEBGPU_LAST_STATUS = Some ''crashed''"
    and 5: "alerts b' = (if truthy (localStorage b KEY_FLAG_WEBGPU_DISABLED_ALERT)
                    then alerts b else alerts b @ [crash_alert])"
    and 6: "truthy (localStorage b' KEY_FLAG_WEBGPU_DISABLED_ALERT)"
    unfolding b'_def ia by (simp_all add: truthy_def)
  obtain this1 b1 where
    i: "initialize checkAvailability init_ok new_App b = (this1, b1)"
    by (cases "initialize checkAvailability init_ok new_App b")
  have 7: "store s' = b'"
    unfolding s'_def b'_def
    by (cases "initialize_availability checkAvailability new_App b")
       (simp add: initialize_def split: option.splits)
  have s: "s' = \<lparr>page = this1, store = b1\<rparr>"
    unfolding s'_def by (simp add: i)
  have 8: "\<not> on_webgpu (page s')"
  proof
    assume "on_webgpu (page s')"
    with initialize_new_App [OF i] s have "b1 = b" by simp
    with 7 s 4 assms(1) show False by simp
  qed
  have 9: "alerts (store (fold step events s')) = alerts b'" for events
    using no_alert_once_flagged [of s' events] 6 7 by simp
  from 1 2 3 4 5 6 7 8 9 at_most_one_alert show ?thesis by blast
qed

theorem crash_detected_at_session_start_witness:
  "defaultOrder (fst (initialize_availability (\<lambda>k. True) new_App crashed_browser))
     = [''webassembly'', ''fallback'']
   \<and> alerts (snd (snd (initialize_availability (\<lambda>k. True) new_App crashed_browser)))
     = [crash_alert]
   \<and> alerts (store (fold step [Start (\<lambda>k. True) (\<lambda>k. True)]
        (step (Start (\<lambda>k. True) (\<lambda>k. True)) \<lparr>page = new_App, store = crashed_browser\<rparr>)))
     = [crash_alert]"
proof -
  have 1: "localStorage crashed_browser KEY_WEBGPU_LAST_STATUS = Some ''running''"
    by (simp add: crashed_browser_def)
  have 2: "(\<lambda>k::BackendName. True) ''webgpu''" by simp
  have 3: "defaultOrder (getBackendAvailability (\<lambda>k. True)) = [''webgpu'', ''webassembly'', ''fallback'']"
    by (simp add: getBackendAvailability_def Let_def)
  have 4: "\<not> truthy (localStorage crashed_browser KEY_FLAG_WEBGPU_DISABLED_ALERT)"
    "alerts crashed_browser = []"
    by (simp_all add: crashed_browser_def truthy_def)
  note t = crash_detected_at_session_start [OF 1 2, where init_ok = "\<lambda>k. True" and this = new_App]
  from t have a: "defaultOrder (fst (initialize_availability (\<lambda>k. True) new_App crashed_browser))
      = filter (\<lambda>k. k \<noteq> ''webgpu'') (defaultOrder (getBackendAvailability (\<lambda>k. True)))"
    by blast
  from t have b: "alerts (snd (snd (initialize_availability (\<lambda>k. True) new_App crashed_browser)))
      = (if truthy (localStorage crashed_browser KEY_FLAG_WEBGPU_DISABLED_ALERT)
         then alerts crashed_browser else alerts crashed_browser @ [crash_alert])"
    by blast
  from t have c: "alerts (store (fold step [Start (\<lambda>k. True) (\<lambda>k. True)]
        (step (Start (\<lambda>k. True) (\<lambda>k. True)) \<lparr>page = new_App, store = crashed_browser\<rparr>)))
      = alerts (snd (snd (initialize_availability (\<lambda>k. True) new_App crashed_browser)))"
    by blast
  from a b c 3 4 show ?thesis by (simp del: step.simps fold_simps)
qed

end
